theory Spec2Isabelle
  imports Main "HOL-Library.Monad_Syntax"
begin

section \<open>Data model of \<open>job_bot.py\<close>\<close>

text \<open>
  A naive \<open>datetime\<close>, as \<open>datetime.utcnow()\<close> and \<open>datetime.strptime\<close> return it.
  Python compares naive datetimes lexicographically on these fields.
\<close>

record datetime =
  year :: nat
  month :: nat
  day :: nat
  hour :: nat
  minute :: nat
  second :: nat
  microsecond :: nat

text \<open>The three tables. The primary key \<open>id\<close> of a \<open>User\<close> or \<open>Job\<close> row is the key of
  the table's map; an \<open>Application\<close> row carries its \<open>id\<close> in \<open>app_id\<close>.\<close>

record user =
  email :: string
  password :: string
  location :: "string option"
  experience :: "int option"
  resume_path :: "string option"

record job =
  title :: string
  company :: string
  job_location :: "string option"
  apply_link :: "string option"

record application =
  app_id :: int
  user_id :: int
  job_id :: int
  status :: string
  applied_at :: "datetime option"

text \<open>A job of the scheduler's job store: \<open>id\<close>, \<open>run_date\<close> of its date trigger, \<open>args\<close>.\<close>

record sched_job =
  sched_id :: string
  run_date :: datetime
  sched_args :: "int \<times> int"

text \<open>
  The state the functions read and write: the database, the job store of the global
  \<open>scheduler\<close>, and a history of the calls of \<open>run_selenium_apply\<close> (its arguments), which
  makes "the executor was invoked" observable.
\<close>

record state =
  users :: "int \<rightharpoonup> user"
  jobs :: "int \<rightharpoonup> job"
  applications :: "application list"
  scheduler_jobs :: "sched_job list"
  selenium_runs :: "(string option \<times> string option) list"

text \<open>The outcome of one browser session, chosen by the outside world.\<close>

datatype selenium = Succeeds | Raises

datatype exn = WebDriverException

text \<open>The parsed JSON body of \<open>POST /apply_job\<close>: \<open>data.get(...)\<close> is \<open>None\<close> for a missing key.\<close>

record apply_data =
  data_user_id :: "int option"
  data_job_id :: "int option"
  data_schedule_time :: "string option"

text \<open>\<open>jsonify(error=..), code\<close> and \<open>jsonify(message=..)\<close> (status 200).\<close>

datatype response = Json_error string nat | Json_message string

section \<open>Library functions the source calls\<close>

subsection \<open>\<open>str\<close> of an integer, as an f-string formats it\<close>

function str_nat :: "nat \<Rightarrow> string" where
  "str_nat n =
     (if n < 10 then [char_of (48 + n)]
      else str_nat (n div 10) @ [char_of (48 + n mod 10)])"
  by pat_completeness auto
termination
  by (relation "measure id") auto

declare str_nat.simps [simp del]

definition str_int :: "int \<Rightarrow> string" where
  "str_int i = (if i < 0 then CHR ''-'' # str_nat (nat (- i)) else str_nat (nat i))"

subsection \<open>\<open>datetime.strptime(s, '%Y-%m-%d %H:%M:%S')\<close> on ASCII text\<close>

text \<open>
  CPython turns the format into a regular expression: four digits, \<open>-\<close>, the month
  \<open>1[0-2]|0[1-9]|[1-9]\<close>, \<open>-\<close>, the day \<open>3[0-1]|[1-2]D|0[1-9]|[1-9]| [1-9]\<close>, one or more
  white-space characters, the hour \<open>2[0-3]|[0-1]D|D\<close>, \<open>:\<close>, the minute \<open>[0-5]D|D\<close>, \<open>:\<close>
  and the second \<open>6[0-1]|[0-5]D|D\<close>, where \<open>D\<close> is a digit. It rejects text left over after
  the match, and then builds the \<open>datetime\<close>, which rejects year 0, a day beyond the
  month's length and a second above 59. Every rejection is a \<open>ValueError\<close>, here \<open>None\<close>.
\<close>

definition is_digit :: "char \<Rightarrow> bool" where
  "is_digit c \<longleftrightarrow> 48 \<le> (of_char c :: nat) \<and> (of_char c :: nat) \<le> 57"

definition is_space :: "char \<Rightarrow> bool" where
  "is_space c \<longleftrightarrow> (of_char c :: nat) \<in> {9, 10, 11, 12, 13, 28, 29, 30, 31, 32}"

definition int_of_digits :: "string \<Rightarrow> nat" where
  "int_of_digits ds = fold (\<lambda>c n. 10 * n + (of_char c - 48)) ds 0"

text \<open>A field of one or two digits with a value between \<open>lo\<close> and \<open>hi\<close>, and the rest.\<close>

definition number :: "nat \<Rightarrow> nat \<Rightarrow> string \<Rightarrow> (nat \<times> string) option" where
  "number lo hi s =
     (let ds = takeWhile is_digit s; n = int_of_digits ds
      in if (length ds = 1 \<or> length ds = 2) \<and> lo \<le> n \<and> n \<le> hi
         then Some (n, dropWhile is_digit s) else None)"

definition expect :: "char \<Rightarrow> string \<Rightarrow> string option" where
  "expect c s = (case s of [] \<Rightarrow> None | x # xs \<Rightarrow> if x = c then Some xs else None)"

text \<open>The day field also matches a blank followed by one digit from 1 to 9.\<close>

definition day_field :: "string \<Rightarrow> (nat \<times> string) option" where
  "day_field s =
     (case s of
        x # y # r \<Rightarrow>
          if x = CHR '' '' then
            (if is_digit y \<and> y \<noteq> CHR ''0'' then Some (int_of_digits [y], r) else None)
          else number 1 31 s
      | _ \<Rightarrow> number 1 31 s)"

definition spaces :: "string \<Rightarrow> string option" where
  "spaces s = (if takeWhile is_space s = [] then None else Some (dropWhile is_space s))"

definition is_leap :: "nat \<Rightarrow> bool" where
  "is_leap y \<longleftrightarrow> y mod 4 = 0 \<and> (y mod 100 \<noteq> 0 \<or> y mod 400 = 0)"

definition days_in_month :: "nat \<Rightarrow> nat \<Rightarrow> nat" where
  "days_in_month y m =
     (if m = 2 then (if is_leap y then 29 else 28)
      else if m = 4 \<or> m = 6 \<or> m = 9 \<or> m = 11 then 30 else 31)"

definition make_datetime ::
  "nat \<Rightarrow> nat \<Rightarrow> nat \<Rightarrow> nat \<Rightarrow> nat \<Rightarrow> nat \<Rightarrow> datetime option" where
  "make_datetime y m d h mi sec =
     (if 1 \<le> y \<and> d \<le> days_in_month y m \<and> sec \<le> 59
      then Some \<lparr>year = y, month = m, day = d, hour = h, minute = mi, second = sec,
                 microsecond = 0\<rparr>
      else None)"

definition digits4 :: "string \<Rightarrow> (nat \<times> string) option" where
  "digits4 s =
     (if length (take 4 s) = 4 \<and> list_all is_digit (take 4 s)
      then Some (int_of_digits (take 4 s), drop 4 s) else None)"

definition strptime :: "string \<Rightarrow> datetime option" where
  "strptime s = do {
     (y, r0) \<leftarrow> digits4 s;
     r1 \<leftarrow> expect CHR ''-'' r0;
     (m, r2) \<leftarrow> number 1 12 r1;
     r3 \<leftarrow> expect CHR ''-'' r2;
     (d, r4) \<leftarrow> day_field r3;
     r5 \<leftarrow> spaces r4;
     (h, r6) \<leftarrow> number 0 23 r5;
     r7 \<leftarrow> expect CHR '':'' r6;
     (mi, r8) \<leftarrow> number 0 59 r7;
     r9 \<leftarrow> expect CHR '':'' r8;
     (sec, r10) \<leftarrow> number 0 61 r9;
     if r10 = [] then make_datetime y m d h mi sec else None
   }"

text \<open>Comparison of naive datetimes: \<open>a < b\<close>.\<close>

definition datetime_less :: "datetime \<Rightarrow> datetime \<Rightarrow> bool" where
  "datetime_less a b \<longleftrightarrow>
     lexordp (<)
       [year a, month a, day a, hour a, minute a, second a, microsecond a]
       [year b, month b, day b, hour b, minute b, second b, microsecond b]"

subsection \<open>The database session\<close>

definition User_query_get :: "state \<Rightarrow> int option \<Rightarrow> (int \<times> user) option" where
  "User_query_get s k =
     (case k of None \<Rightarrow> None
      | Some i \<Rightarrow> (case users s i of None \<Rightarrow> None | Some u \<Rightarrow> Some (i, u)))"

definition Job_query_get :: "state \<Rightarrow> int option \<Rightarrow> (int \<times> job) option" where
  "Job_query_get s k =
     (case k of None \<Rightarrow> None
      | Some i \<Rightarrow> (case jobs s i of None \<Rightarrow> None | Some j \<Rightarrow> Some (i, j)))"

definition for_pair :: "int \<Rightarrow> int \<Rightarrow> application \<Rightarrow> bool" where
  "for_pair uid jid a \<longleftrightarrow> user_id a = uid \<and> job_id a = jid"

text \<open>\<open>Application.query.filter_by(user_id=.., job_id=..).first()\<close>\<close>

definition Application_query_first :: "state \<Rightarrow> int \<Rightarrow> int \<Rightarrow> application option" where
  "Application_query_first s uid jid = find (for_pair uid jid) (applications s)"

text \<open>The \<open>id\<close> SQLite gives a new row: one more than the largest in the table.\<close>

definition next_id :: "application list \<Rightarrow> int" where
  "next_id as = (case as of [] \<Rightarrow> 1 | a # r \<Rightarrow> fold max (map app_id r) (app_id a) + 1)"

text \<open>\<open>db.session.add(Application(user_id=.., job_id=.., status=.., applied_at=..))\<close>
  followed by \<open>db.session.commit()\<close>.\<close>

definition db_session_add ::
  "int \<Rightarrow> int \<Rightarrow> string \<Rightarrow> datetime option \<Rightarrow> state \<Rightarrow> state" where
  "db_session_add uid jid st at s =
     s\<lparr>applications := applications s @
          [\<lparr>app_id = next_id (applications s), user_id = uid, job_id = jid,
            status = st, applied_at = at\<rparr>]\<rparr>"

text \<open>Assigning to the attributes of the row a query returned, then committing.\<close>

fun update_first :: "('a \<Rightarrow> bool) \<Rightarrow> ('a \<Rightarrow> 'a) \<Rightarrow> 'a list \<Rightarrow> 'a list" where
  "update_first P f [] = []"
| "update_first P f (x # xs) = (if P x then f x # xs else x # update_first P f xs)"

subsection \<open>The scheduler's job store\<close>

text \<open>
  Modelled from the spec: the scheduler is the APScheduler library, which is not part of
  the source. \<open>add_job(.., id=k, replace_existing=True)\<close> stores the job under \<open>k\<close>,
  replacing a job that is stored under \<open>k\<close> already (section 4.2, Register).
\<close>

fun add_job :: "sched_job \<Rightarrow> sched_job list \<Rightarrow> sched_job list" where
  "add_job j [] = [j]"
| "add_job j (x # xs) = (if sched_id x = sched_id j then j # xs else x # add_job j xs)"

section \<open>The functions of \<open>job_bot.py\<close>\<close>

text \<open>\<open>run_selenium_apply\<close>: a \<open>try\<close>/\<open>finally\<close> with no \<open>except\<close>, so whatever the browser
  raises leaves the function as an exception.\<close>

definition run_selenium_apply ::
  "selenium \<Rightarrow> string option \<Rightarrow> string option \<Rightarrow> state \<Rightarrow> (exn + unit) \<times> state" where
  "run_selenium_apply chrome link resume s =
     (let s1 = s\<lparr>selenium_runs := selenium_runs s @ [(link, resume)]\<rparr>
      in case chrome of Succeeds \<Rightarrow> (Inr (), s1) | Raises \<Rightarrow> (Inl WebDriverException, s1))"

definition job_id_str :: "int \<Rightarrow> int \<Rightarrow> string" where
  "job_id_str uid jid = ''apply_'' @ str_int uid @ ''_'' @ str_int jid"

definition schedule_application :: "int \<Rightarrow> int \<Rightarrow> datetime \<Rightarrow> state \<Rightarrow> state" where
  "schedule_application uid jid run_time s =
     s\<lparr>scheduler_jobs :=
         add_job \<lparr>sched_id = job_id_str uid jid, run_date = run_time, sched_args = (uid, jid)\<rparr>
           (scheduler_jobs s)\<rparr>"

text \<open>\<open>execute_application\<close>; \<open>now\<close> is what \<open>datetime.utcnow()\<close> returns during the call.\<close>

definition execute_application ::
  "selenium \<Rightarrow> datetime \<Rightarrow> int \<Rightarrow> int \<Rightarrow> state \<Rightarrow> (exn + unit) \<times> state" where
  "execute_application chrome now uid jid s =
     (case users s uid of None \<Rightarrow> (Inr (), s) | Some usr \<Rightarrow>
      case jobs s jid of None \<Rightarrow> (Inr (), s) | Some jb \<Rightarrow>
      case run_selenium_apply chrome (apply_link jb) (resume_path usr) s of
        (Inl e, s1) \<Rightarrow> (Inl e, s1)
      | (Inr _, s1) \<Rightarrow>
          (case Application_query_first s1 uid jid of
             Some _ \<Rightarrow>
               (Inr (),
                s1\<lparr>applications :=
                     update_first (for_pair uid jid)
                       (\<lambda>a. a\<lparr>status := ''Applied'', applied_at := Some now\<rparr>)
                       (applications s1)\<rparr>)
           | None \<Rightarrow> (Inr (), db_session_add uid jid ''Applied'' (Some now) s1)))"

text \<open>The responses of \<open>apply_job_route\<close>, under the names the specification gives them.\<close>

definition NotFound :: response where
  "NotFound = Json_error ''Invalid IDs'' 400"

definition DuplicateApplication :: response where
  "DuplicateApplication = Json_error ''Already applied'' 400"

definition InvalidSchedule :: response where
  "InvalidSchedule = Json_error ''Invalid datetime'' 400"

text \<open>Lines 211 to 218 of \<open>apply_job_route\<close>: the two checks and the insertion of the new
  row. The result is the error response, or the ids and the state after the commit.\<close>

definition apply_job_create :: "apply_data \<Rightarrow> state \<Rightarrow> response + (int \<times> int \<times> state)" where
  "apply_job_create d s =
     (case User_query_get s (data_user_id d) of None \<Rightarrow> Inl NotFound | Some (uid, usr) \<Rightarrow>
      case Job_query_get s (data_job_id d) of None \<Rightarrow> Inl NotFound | Some (jid, jb) \<Rightarrow>
      case Application_query_first s uid jid of
        Some _ \<Rightarrow> Inl DuplicateApplication
      | None \<Rightarrow> Inr (uid, jid, db_session_add uid jid ''Pending'' None s))"

text \<open>Python's truth value of \<open>schedule_time\<close>: a missing key and the empty string are false.\<close>

definition truthy :: "string option \<Rightarrow> bool" where
  "truthy v = (case v of None \<Rightarrow> False | Some t \<Rightarrow> t \<noteq> [])"

text \<open>Lines 219 to 228: the deferred or the immediate path.\<close>

definition apply_job_dispatch ::
  "selenium \<Rightarrow> datetime \<Rightarrow> string option \<Rightarrow> int \<Rightarrow> int \<Rightarrow> state \<Rightarrow> (exn + response) \<times> state"
  where
  "apply_job_dispatch chrome now schedule_time uid jid s =
     (if truthy schedule_time then
        (case strptime (the schedule_time) of
           Some dt \<Rightarrow>
             (Inr (Json_message (''Scheduled at '' @ the schedule_time)),
              schedule_application uid jid dt s)
         | None \<Rightarrow> (Inr InvalidSchedule, s))
      else
        (case execute_application chrome now uid jid s of
           (Inl e, s1) \<Rightarrow> (Inl e, s1)
         | (Inr _, s1) \<Rightarrow> (Inr (Json_message ''Applied immediately''), s1)))"

definition apply_job_route ::
  "selenium \<Rightarrow> datetime \<Rightarrow> apply_data \<Rightarrow> state \<Rightarrow> (exn + response) \<times> state" where
  "apply_job_route chrome now d s =
     (case apply_job_create d s of
        Inl r \<Rightarrow> (Inr r, s)
      | Inr (uid, jid, s1) \<Rightarrow> apply_job_dispatch chrome now (data_schedule_time d) uid jid s1)"

text \<open>
  Modelled from the spec: the firing of a job by the APScheduler library, which is not part
  of the source. When the clock has reached the \<open>run_date\<close> of the job stored under \<open>k\<close>, the
  job is removed from the store and its callback \<open>execute_application\<close> is called once with
  its \<open>args\<close>; an exception of the callback is logged by the library and goes no further
  (section 4.2, firing model).
\<close>

definition fire :: "selenium \<Rightarrow> datetime \<Rightarrow> string \<Rightarrow> state \<Rightarrow> state" where
  "fire chrome now k s =
     (case find (\<lambda>j. sched_id j = k) (scheduler_jobs s) of
        None \<Rightarrow> s
      | Some j \<Rightarrow>
          if datetime_less now (run_date j) then s
          else snd (execute_application chrome now (fst (sched_args j)) (snd (sched_args j))
                 (s\<lparr>scheduler_jobs := remove1 j (scheduler_jobs s)\<rparr>)))"

section \<open>Sequences of operations\<close>

datatype operation =
    RequestApplication selenium datetime apply_data
  | Execute selenium datetime int int
  | Fire selenium datetime string

fun step :: "operation \<Rightarrow> state \<Rightarrow> state" where
  "step (RequestApplication chrome now d) s = snd (apply_job_route chrome now d s)"
| "step (Execute chrome now uid jid) s = snd (execute_application chrome now uid jid s)"
| "step (Fire chrome now k) s = fire chrome now k s"

fun run :: "operation list \<Rightarrow> state \<Rightarrow> state" where
  "run [] s = s"
| "run (x # xs) s = run xs (step x s)"



text \<open>The foreign keys of the \<open>Application\<close> table: every row refers to a user and a job
  that exist.\<close>

definition refs_resolve :: "state \<Rightarrow> bool" where
  "refs_resolve s \<longleftrightarrow>
     list_all (\<lambda>a. users s (user_id a) \<noteq> None \<and> jobs s (job_id a) \<noteq> None) (applications s)"

text \<open>What identifies a row for good: its \<open>id\<close> and its pair.\<close>

definition row_key :: "application \<Rightarrow> int \<times> int \<times> int" where
  "row_key a = (app_id a, user_id a, job_id a)"

section \<open>Concrete data for the examples\<close>

definition alice :: user where
  "alice = \<lparr>email = ''alice@example.com'', password = ''secret'', location = Some ''Berlin'',
     experience = Some 3, resume_path = Some ''uploads/cv.pdf''\<rparr>"

definition posting :: job where
  "posting = \<lparr>title = ''Data Scientist'', company = ''ABC Corp'',
     job_location = Some ''Berlin'', apply_link = Some ''https://example.com/apply/123''\<rparr>"

definition db0 :: state where
  "db0 = \<lparr>users = [1 \<mapsto> alice], jobs = [1 \<mapsto> posting], applications = [],
     scheduler_jobs = [], selenium_runs = []\<rparr>"

definition noon :: datetime where
  "noon = \<lparr>year = 2026, month = 1, day = 1, hour = 12, minute = 0, second = 0,
     microsecond = 0\<rparr>"

definition evening :: datetime where
  "evening = \<lparr>year = 2026, month = 1, day = 1, hour = 18, minute = 30, second = 0,
     microsecond = 0\<rparr>"

definition request :: "string option \<Rightarrow> apply_data" where
  "request t = \<lparr>data_user_id = Some 1, data_job_id = Some 1, data_schedule_time = t\<rparr>"

definition row :: "string \<Rightarrow> datetime option \<Rightarrow> application" where
  "row st at = \<lparr>app_id = 1, user_id = 1, job_id = 1, status = st, applied_at = at\<rparr>"

definition db_with :: "application \<Rightarrow> state" where
  "db_with a = db0\<lparr>applications := [a]\<rparr>"

section \<open>Frame and invariant lemmas\<close>

lemma map_update_first:
  "(\<And>x. g (f x) = g x) \<Longrightarrow> map g (update_first P f xs) = map g xs"
  by (induction xs) auto

lemma length_update_first: "length (update_first P f xs) = length xs"
  by (induction xs) auto


lemma execute_application_cases:
  "execute_application c n u j s = (Inr (), s)
   \<or> (\<exists>usr jb. users s u = Some usr \<and> jobs s j = Some jb \<and>
        (let s1 = s\<lparr>selenium_runs := selenium_runs s @ [(apply_link jb, resume_path usr)]\<rparr> in
         (c = Raises \<and> execute_application c n u j s = (Inl WebDriverException, s1))
       \<or> (c = Succeeds \<and> Application_query_first s u j \<noteq> None \<and>
           execute_application c n u j s =
             (Inr (), s1\<lparr>applications := update_first (for_pair u j)
                 (\<lambda>a. a\<lparr>status := ''Applied'', applied_at := Some n\<rparr>) (applications s)\<rparr>))
       \<or> (c = Succeeds \<and> Application_query_first s u j = None \<and>
           execute_application c n u j s =
             (Inr (), s1\<lparr>applications := applications s @
                 [\<lparr>app_id = next_id (applications s), user_id = u, job_id = j,
                   status = ''Applied'', applied_at = Some n\<rparr>]\<rparr>))))"
  by (cases c)
     (auto simp: execute_application_def run_selenium_apply_def Application_query_first_def
        db_session_add_def Let_def split: option.splits)

lemma execute_frame:
  "users (snd (execute_application c n u j s)) = users s"
  "jobs (snd (execute_application c n u j s)) = jobs s"
  "scheduler_jobs (snd (execute_application c n u j s)) = scheduler_jobs s"
  using execute_application_cases [of c n u j s] by (auto simp: Let_def)


lemma create_cases:
  "apply_job_create d s = Inr (u, j, s1) \<Longrightarrow>
     data_user_id d = Some u \<and> data_job_id d = Some j \<and> users s u \<noteq> None \<and> jobs s j \<noteq> None
     \<and> Application_query_first s u j = None
     \<and> s1 = db_session_add u j ''Pending'' None s"
  by (auto simp: apply_job_create_def User_query_get_def Job_query_get_def
        split: option.splits)



lemma schedule_frame:
  "users (schedule_application u j t s) = users s"
  "jobs (schedule_application u j t s) = jobs s"
  "applications (schedule_application u j t s) = applications s"
  "selenium_runs (schedule_application u j t s) = selenium_runs s"
  by (simp_all add: schedule_application_def)







lemma find_Some_mem: "find P xs = Some a \<Longrightarrow> a \<in> set xs \<and> P a"
  by (induction xs) (auto split: if_splits)

lemma find_update_first:
  "find P xs = Some a \<Longrightarrow> P (f a) \<Longrightarrow> find P (update_first P f xs) = Some (f a)"
  by (induction xs) (auto split: if_splits)

lemma update_first_cong:
  "find P xs = Some a \<Longrightarrow> f a = g a \<Longrightarrow> update_first P f xs = update_first P g xs"
  by (induction xs) (auto split: if_splits)

lemma execute_succeeds_existing:
  assumes "users s uid = Some usr" "jobs s jid = Some jb"
    and "Application_query_first s uid jid = Some a"
  shows "execute_application Succeeds now uid jid s =
           (Inr (), s\<lparr>selenium_runs := selenium_runs s @ [(apply_link jb, resume_path usr)],
                      applications := update_first (for_pair uid jid)
                        (\<lambda>b. b\<lparr>status := ''Applied'', applied_at := Some now\<rparr>)
                        (applications s)\<rparr>)"
  using assms
  by (simp add: execute_application_def run_selenium_apply_def Application_query_first_def)

lemma execute_raises:
  assumes "users s uid = Some usr" "jobs s jid = Some jb"
  shows "execute_application Raises now uid jid s =
           (Inl WebDriverException,
            s\<lparr>selenium_runs := selenium_runs s @ [(apply_link jb, resume_path usr)]\<rparr>)"
  using assms by (simp add: execute_application_def run_selenium_apply_def)

lemma execute_succeeds_missing:
  assumes "users s uid = Some usr" "jobs s jid = Some jb"
    and "Application_query_first s uid jid = None"
  shows "execute_application Succeeds now uid jid s =
           (Inr (), s\<lparr>selenium_runs := selenium_runs s @ [(apply_link jb, resume_path usr)],
                      applications := applications s @
                        [\<lparr>app_id = next_id (applications s), user_id = uid, job_id = jid,
                          status = ''Applied'', applied_at = Some now\<rparr>]\<rparr>)"
  using assms
  by (simp add: execute_application_def run_selenium_apply_def Application_query_first_def
        db_session_add_def)

lemma route_immediate_raises:
  assumes "apply_job_create d s = Inr (u, j, s1)" and "\<not> truthy (data_schedule_time d)"
  shows "fst (apply_job_route Raises now d s) = Inl WebDriverException"
proof -
  from create_cases [OF assms(1)] obtain usr jb where
    "users s1 u = Some usr" "jobs s1 j = Some jb"
    by (auto simp: db_session_add_def)
  then have "execute_application Raises now u j s1 =
      (Inl WebDriverException,
       s1\<lparr>selenium_runs := selenium_runs s1 @ [(apply_link jb, resume_path usr)]\<rparr>)"
    by (rule execute_raises)
  then show ?thesis
    using assms by (simp add: apply_job_route_def apply_job_dispatch_def)
qed

lemma run_selenium_frame:
  "users (snd (run_selenium_apply c l r s)) = users s"
  "jobs (snd (run_selenium_apply c l r s)) = jobs s"
  "applications (snd (run_selenium_apply c l r s)) = applications s"
  by (cases c; simp add: run_selenium_apply_def)+

lemma create_frame:
  "apply_job_create d s = Inr (u, j, s1) \<Longrightarrow>
     users s1 = users s \<and> jobs s1 = jobs s \<and> scheduler_jobs s1 = scheduler_jobs s
     \<and> selenium_runs s1 = selenium_runs s
     \<and> applications s1 = applications s @
          [\<lparr>app_id = next_id (applications s), user_id = u, job_id = j,
            status = ''Pending'', applied_at = None\<rparr>]"
  using create_cases [of d s u j s1] by (auto simp: db_session_add_def)

lemma dispatch_frame:
  "users (snd (apply_job_dispatch c n st u j s)) = users s"
  "jobs (snd (apply_job_dispatch c n st u j s)) = jobs s"
  using execute_frame(1,2) [of c n u j s]
  by (auto simp: apply_job_dispatch_def schedule_frame
        split: option.splits prod.splits sum.splits)

lemma route_frame:
  "users (snd (apply_job_route c n d s)) = users s"
  "jobs (snd (apply_job_route c n d s)) = jobs s"
  by (auto simp: apply_job_route_def dispatch_frame dest: create_frame split: sum.splits)

lemma fire_frame:
  "users (fire c n k s) = users s"
  "jobs (fire c n k s) = jobs s"
  by (auto simp: fire_def execute_frame split: option.splits)

lemma step_frame: "users (step x s) = users s" "jobs (step x s) = jobs s"
  by (cases x; simp add: route_frame execute_frame fire_frame)+

lemma run_frame: "users (run xs s) = users s \<and> jobs (run xs s) = jobs s"
  by (induction xs arbitrary: s) (simp_all add: step_frame)

lemma execute_keys:
  "\<exists>zs. map row_key (applications (snd (execute_application c n u j s)))
        = map row_key (applications s) @ zs"
  using execute_application_cases [of c n u j s]
  by (auto simp: Let_def map_update_first row_key_def)

lemma dispatch_keys:
  "\<exists>zs. map row_key (applications (snd (apply_job_dispatch c n st u j s)))
        = map row_key (applications s) @ zs"
  using execute_keys [of c n u j s]
  by (auto simp: apply_job_dispatch_def schedule_frame split: option.splits prod.splits sum.splits)

lemma route_keys:
  "\<exists>zs. map row_key (applications (snd (apply_job_route c n d s)))
        = map row_key (applications s) @ zs"
proof (cases "apply_job_create d s")
  case (Inl r)
  then show ?thesis by (simp add: apply_job_route_def)
next
  case (Inr t)
  then obtain u j s1 where t: "apply_job_create d s = Inr (u, j, s1)"
    by (cases t) auto
  from dispatch_keys [of c n "data_schedule_time d" u j s1] obtain zs where
    "map row_key (applications (snd (apply_job_dispatch c n (data_schedule_time d) u j s1)))
       = map row_key (applications s1) @ zs" ..
  then show ?thesis
    using t create_frame [OF t] by (simp add: apply_job_route_def)
qed

lemma fire_keys:
  "\<exists>zs. map row_key (applications (fire c n k s)) = map row_key (applications s) @ zs"
proof (cases "fire c n k s = s")
  case True
  then show ?thesis by simp
next
  case False
  then obtain jb where
    "fire c n k s = snd (execute_application c n (fst (sched_args jb)) (snd (sched_args jb))
        (s\<lparr>scheduler_jobs := remove1 jb (scheduler_jobs s)\<rparr>))"
    by (auto simp: fire_def split: option.splits if_splits)
  then show ?thesis
    using execute_keys [of c n "fst (sched_args jb)" "snd (sched_args jb)"
        "s\<lparr>scheduler_jobs := remove1 jb (scheduler_jobs s)\<rparr>"]
    by simp
qed

lemma step_keys:
  "\<exists>zs. map row_key (applications (step x s)) = map row_key (applications s) @ zs"
  by (cases x) (simp_all add: route_keys execute_keys fire_keys)

lemma run_keys:
  "\<exists>zs. map row_key (applications (run xs s)) = map row_key (applications s) @ zs"
proof (induction xs arbitrary: s)
  case Nil
  then show ?case by simp
next
  case (Cons x xs)
  from step_keys [of x s] obtain ys where
    ys: "map row_key (applications (step x s)) = map row_key (applications s) @ ys" ..
  from Cons [of "step x s"] obtain zs where
    "map row_key (applications (run xs (step x s)))
       = map row_key (applications (step x s)) @ zs" ..
  with ys show ?case by simp
qed

lemma find_pair_keys:
  "find (for_pair u j) xs \<noteq> None \<longleftrightarrow> (u, j) \<in> (\<lambda>k. (fst (snd k), snd (snd k))) ` set (map row_key xs)"
  by (induction xs) (auto simp: for_pair_def row_key_def)

lemma run_keeps_record:
  assumes "Application_query_first s u j \<noteq> None"
  shows "Application_query_first (run xs s) u j \<noteq> None"
proof -
  from run_keys [of xs s] obtain zs where
    "map row_key (applications (run xs s)) = map row_key (applications s) @ zs" ..
  then have "set (map row_key (applications s)) \<subseteq> set (map row_key (applications (run xs s)))"
    by simp
  then show ?thesis
    using assms unfolding Application_query_first_def find_pair_keys by blast
qed

lemma list_all_update_first:
  "list_all Q xs \<Longrightarrow> (\<And>x. Q x \<Longrightarrow> Q (f x)) \<Longrightarrow> list_all Q (update_first P f xs)"
  by (induction xs) auto

lemma execute_refs:
  assumes "refs_resolve s"
  shows "refs_resolve (snd (execute_application c n u j s))"
proof -
  let ?Q = "\<lambda>a. users s (user_id a) \<noteq> None \<and> jobs s (job_id a) \<noteq> None"
  have all: "list_all ?Q (applications s)"
    using assms by (simp add: refs_resolve_def)
  have upd: "list_all ?Q (update_first (for_pair u j)
      (\<lambda>a. a\<lparr>status := ''Applied'', applied_at := Some n\<rparr>) (applications s))"
    using all by (rule list_all_update_first) simp
  show ?thesis
    using execute_application_cases [of c n u j s] assms all upd
    by (auto simp: Let_def refs_resolve_def)
qed

lemma create_refs:
  "refs_resolve s \<Longrightarrow> apply_job_create d s = Inr (u, j, s1) \<Longrightarrow> refs_resolve s1"
  using create_cases [of d s u j s1]
  by (auto simp: refs_resolve_def db_session_add_def)

lemma dispatch_refs:
  "refs_resolve s \<Longrightarrow> refs_resolve (snd (apply_job_dispatch c n st u j s))"
  using execute_refs [of s c n u j]
  by (auto simp: apply_job_dispatch_def refs_resolve_def schedule_frame
        split: option.splits prod.splits sum.splits)

lemma route_refs: "refs_resolve s \<Longrightarrow> refs_resolve (snd (apply_job_route c n d s))"
  by (auto simp: apply_job_route_def dispatch_refs create_refs split: sum.splits)

lemma fire_refs: "refs_resolve s \<Longrightarrow> refs_resolve (fire c n k s)"
proof -
  assume inv: "refs_resolve s"
  have "refs_resolve (s\<lparr>scheduler_jobs := js\<rparr>)" for js
    using inv by (simp add: refs_resolve_def)
  then show ?thesis
    using inv by (auto simp: fire_def execute_refs split: option.splits)
qed

lemma step_refs: "refs_resolve s \<Longrightarrow> refs_resolve (step x s)"
  by (cases x) (simp_all add: route_refs execute_refs fire_refs)

lemma run_refs: "refs_resolve s \<Longrightarrow> refs_resolve (run xs s)"
  by (induction xs arbitrary: s) (simp_all add: step_refs)

lemma duplicate_when_resolved:
  assumes "data_user_id d = Some uid" and "data_job_id d = Some jid"
    and "users s uid \<noteq> None" and "jobs s jid \<noteq> None"
    and "Application_query_first s uid jid \<noteq> None"
  shows "apply_job_route chrome now d s = (Inr DuplicateApplication, s)"
  using assms
  by (auto simp: apply_job_route_def apply_job_create_def User_query_get_def Job_query_get_def
        split: option.splits)

lemma execute_length_existing:
  "Application_query_first s u j \<noteq> None \<or> c = Raises \<or> users s u = None \<or> jobs s j = None \<Longrightarrow>
     length (applications (snd (execute_application c n u j s))) = length (applications s)"
  using execute_application_cases [of c n u j s]
  by (auto simp: Let_def length_update_first)

lemma find_snoc_hit: "P r \<Longrightarrow> find P (xs @ [r]) \<noteq> None"
  by (induction xs) auto

lemma route_length:
  assumes "apply_job_create d s = Inr (u, j, s1)"
  shows "length (applications (snd (apply_job_route c n d s))) = length (applications s) + 1"
proof -
  have ex: "Application_query_first s1 u j \<noteq> None"
    using create_frame [OF assms]
    by (simp add: Application_query_first_def find_snoc_hit for_pair_def)
  have "length (applications (snd (execute_application c n u j s1))) = length (applications s1)"
    using ex by (simp add: execute_length_existing)
  then have "length (applications (snd (apply_job_dispatch c n st u j s1)))
      = length (applications s1)" for st
    by (auto simp: apply_job_dispatch_def schedule_frame
          split: option.splits prod.splits sum.splits)
  then show ?thesis
    using assms create_frame [OF assms] by (simp add: apply_job_route_def)
qed

lemma route_scheduled_path:
  assumes "apply_job_create d s = Inr (u, j, s1)"
    and "data_schedule_time d = Some st" and "st \<noteq> []"
  shows "apply_job_route chrome now d s =
           (case strptime st of
              None \<Rightarrow> (Inr InvalidSchedule, s1)
            | Some dt \<Rightarrow> (Inr (Json_message (''Scheduled at '' @ st)),
                          schedule_application u j dt s1))"
  using assms
  by (simp add: apply_job_route_def apply_job_dispatch_def truthy_def split: option.splits)

lemma find_snoc_new: "find P xs = None \<Longrightarrow> P r \<Longrightarrow> find P (xs @ [r]) = Some r"
  by (induction xs) (auto split: if_splits)

lemma digit_char: "d < 10 \<Longrightarrow> (of_char (char_of (48 + d :: nat)) :: nat) = 48 + d"
  by simp





lemma str_nat_not_Nil: "str_nat n \<noteq> []"
  by (subst str_nat.simps) simp












section \<open>The claims\<close>



text \<open>
  C2, as amended. The claim is that Execute on a record with status Applied or Failed leaves
  the record and the rest of the store unchanged. \<open>execute_application\<close> has no check of the
  status. What holds: for a record with status Applied and resolvable ids, an Execute whose
  executor run succeeds keeps the status Applied and leaves every other record, the users,
  the jobs and the scheduled tasks unchanged, but it runs the executor again and sets
  \<open>applied_at\<close> to the current time; an Execute whose executor run raises changes nothing
  but the history of executor runs.
\<close>

theorem execute_on_applied:
  assumes "users s uid = Some usr" and "jobs s jid = Some jb"
    and "Application_query_first s uid jid = Some a" and "status a = ''Applied''"
  shows "execute_application Succeeds now uid jid s =
           (Inr (), s\<lparr>selenium_runs := selenium_runs s @ [(apply_link jb, resume_path usr)],
                      applications := update_first (for_pair uid jid)
                        (\<lambda>b. b\<lparr>applied_at := Some now\<rparr>) (applications s)\<rparr>)
    \<and> Application_query_first (snd (execute_application Succeeds now uid jid s)) uid jid
        = Some (a\<lparr>applied_at := Some now\<rparr>)
    \<and> execute_application Raises now uid jid s =
           (Inl WebDriverException,
            s\<lparr>selenium_runs := selenium_runs s @ [(apply_link jb, resume_path usr)]\<rparr>)"
proof -
  let ?f = "\<lambda>b. b\<lparr>status := ''Applied'', applied_at := Some now\<rparr>"
  let ?g = "\<lambda>b::application. b\<lparr>applied_at := Some now\<rparr>"
  have fnd: "find (for_pair uid jid) (applications s) = Some a"
    using assms(3) by (simp add: Application_query_first_def)
  have same: "?f a = ?g a"
    using assms(4) by simp
  have upd: "update_first (for_pair uid jid) ?f (applications s)
             = update_first (for_pair uid jid) ?g (applications s)"
    using fnd same by (rule update_first_cong)
  have pa: "for_pair uid jid (?g a)"
    using find_Some_mem [OF fnd] by (simp add: for_pair_def)
  have run: "execute_application Succeeds now uid jid s =
           (Inr (), s\<lparr>selenium_runs := selenium_runs s @ [(apply_link jb, resume_path usr)],
                      applications := update_first (for_pair uid jid) ?g (applications s)\<rparr>)"
    using execute_succeeds_existing [OF assms(1-3), of now] upd by simp
  have "find (for_pair uid jid) (update_first (for_pair uid jid) ?g (applications s))
        = Some (?g a)"
    by (rule find_update_first [where f = ?g, OF fnd pa])
  then have after: "Application_query_first (snd (execute_application Succeeds now uid jid s))
      uid jid = Some (?g a)"
    by (simp add: run Application_query_first_def)
  show ?thesis
    using run after execute_raises [OF assms(1,2), of now] by simp
qed

theorem execute_on_applied_witness:
  "Application_query_first (db_with (row ''Applied'' (Some noon))) 1 1
     = Some (row ''Applied'' (Some noon))
   \<and> applications (snd (execute_application Succeeds evening 1 1
        (db_with (row ''Applied'' (Some noon))))) = [row ''Applied'' (Some evening)]
   \<and> fst (execute_application Raises evening 1 1 (db_with (row ''Applied'' (Some noon))))
       = Inl WebDriverException"
proof -
  let ?s = "db_with (row ''Applied'' (Some noon))"
  have u: "users ?s 1 = Some alice" and j: "jobs ?s 1 = Some posting"
    by (simp_all add: db_with_def db0_def)
  have q: "Application_query_first ?s 1 1 = Some (row ''Applied'' (Some noon))"
    by (simp add: Application_query_first_def db_with_def db0_def row_def for_pair_def)
  have st: "status (row ''Applied'' (Some noon)) = ''Applied''"
    by (simp add: row_def)
  show ?thesis
    using q execute_on_applied [OF u j q st, of evening]
    by (simp add: db_with_def db0_def row_def for_pair_def)
qed

text \<open>
  The claim fails on a record that was applied at noon and is executed again in the evening:
  \<open>applied_at\<close> moves to the evening and the executor has run once more. A record with
  status \<open>Failed\<close> (a value the code never writes) leaves that status: it becomes Applied.
\<close>

theorem execute_on_terminal_counterexample:
  "Application_query_first (db_with (row ''Applied'' (Some noon))) 1 1
     = Some (row ''Applied'' (Some noon))
   \<and> Application_query_first
        (snd (execute_application Succeeds evening 1 1 (db_with (row ''Applied'' (Some noon)))))
        1 1 = Some (row ''Applied'' (Some evening))
   \<and> Some evening \<noteq> Some noon
   \<and> selenium_runs (snd (execute_application Succeeds evening 1 1
        (db_with (row ''Applied'' (Some noon)))))
       \<noteq> selenium_runs (db_with (row ''Applied'' (Some noon)))
   \<and> Application_query_first
        (snd (execute_application Succeeds evening 1 1 (db_with (row ''Failed'' (Some noon)))))
        1 1 = Some (row ''Applied'' (Some evening))"
  by (simp add: execute_application_def run_selenium_apply_def Application_query_first_def
        db_with_def db0_def row_def for_pair_def noon_def evening_def)

text \<open>
  C3, as amended. For an Execute on a Pending record with resolvable ids: when the executor
  succeeds, the status becomes Applied and \<open>applied_at\<close> the current time. When the executor
  raises, nothing catches the exception: it leaves \<open>execute_application\<close>, the table of
  applications is unchanged and the record stays Pending; on the immediate path the
  exception also leaves \<open>apply_job_route\<close>. No status \<open>Failed\<close> is written.
\<close>

theorem execute_on_pending:
  assumes "users s uid = Some usr" and "jobs s jid = Some jb"
    and "Application_query_first s uid jid = Some a" and "status a = ''Pending''"
  shows "fst (execute_application Succeeds now uid jid s) = Inr ()
    \<and> Application_query_first (snd (execute_application Succeeds now uid jid s)) uid jid
        = Some (a\<lparr>status := ''Applied'', applied_at := Some now\<rparr>)
    \<and> fst (execute_application Raises now uid jid s) = Inl WebDriverException
    \<and> applications (snd (execute_application Raises now uid jid s)) = applications s
    \<and> Application_query_first (snd (execute_application Raises now uid jid s)) uid jid = Some a
    \<and> (\<forall>d s0 u j. apply_job_create d s0 = Inr (u, j, s) \<and> \<not> truthy (data_schedule_time d)
          \<longrightarrow> fst (apply_job_route Raises now d s0) = Inl WebDriverException)"
proof -
  let ?f = "\<lambda>b. b\<lparr>status := ''Applied'', applied_at := Some now\<rparr>"
  have fnd: "find (for_pair uid jid) (applications s) = Some a"
    using assms(3) by (simp add: Application_query_first_def)
  have pa: "for_pair uid jid (?f a)"
    using find_Some_mem [OF fnd] by (simp add: for_pair_def)
  have "find (for_pair uid jid) (update_first (for_pair uid jid) ?f (applications s))
        = Some (?f a)"
    by (rule find_update_first [where f = ?f, OF fnd pa])
  then have ok: "fst (execute_application Succeeds now uid jid s) = Inr ()
    \<and> Application_query_first (snd (execute_application Succeeds now uid jid s)) uid jid
        = Some (?f a)"
    by (simp add: execute_succeeds_existing [OF assms(1-3)] Application_query_first_def)
  have bad: "fst (execute_application Raises now uid jid s) = Inl WebDriverException
    \<and> applications (snd (execute_application Raises now uid jid s)) = applications s
    \<and> Application_query_first (snd (execute_application Raises now uid jid s)) uid jid = Some a"
    using assms(3) by (simp add: execute_raises [OF assms(1,2)] Application_query_first_def)
  have route: "\<forall>d s0 u j. apply_job_create d s0 = Inr (u, j, s) \<and> \<not> truthy (data_schedule_time d)
          \<longrightarrow> fst (apply_job_route Raises now d s0) = Inl WebDriverException"
  proof (intro allI impI)
    fix d s0 u j
    assume h: "apply_job_create d s0 = Inr (u, j, s) \<and> \<not> truthy (data_schedule_time d)"
    then show "fst (apply_job_route Raises now d s0) = Inl WebDriverException"
      using route_immediate_raises [of d s0 u j s now] by simp
  qed
  show ?thesis
    using ok bad route by (elim conjE) (intro conjI; assumption)
qed

theorem execute_on_pending_witness:
  "Application_query_first (db_with (row ''Pending'' None)) 1 1 = Some (row ''Pending'' None)
   \<and> Application_query_first
        (snd (execute_application Succeeds noon 1 1 (db_with (row ''Pending'' None)))) 1 1
       = Some (row ''Applied'' (Some noon))
   \<and> execute_application Raises noon 1 1 (db_with (row ''Pending'' None))
       = (Inl WebDriverException,
          (db_with (row ''Pending'' None))
            \<lparr>selenium_runs := [(apply_link posting, resume_path alice)]\<rparr>)"
proof -
  let ?s = "db_with (row ''Pending'' None)"
  have u: "users ?s 1 = Some alice" and j: "jobs ?s 1 = Some posting"
    by (simp_all add: db_with_def db0_def)
  have q: "Application_query_first ?s 1 1 = Some (row ''Pending'' None)"
    by (simp add: Application_query_first_def db_with_def db0_def row_def for_pair_def)
  have st: "status (row ''Pending'' None) = ''Pending''"
    by (simp add: row_def)
  have r: "execute_application Raises noon 1 1 ?s
       = (Inl WebDriverException, ?s\<lparr>selenium_runs := [(apply_link posting, resume_path alice)]\<rparr>)"
    by (simp add: execute_raises [OF u j]) (simp add: db_with_def db0_def)
  show ?thesis
    using q r execute_on_pending [OF u j q st, of noon]
    by (simp add: row_def)
qed

text \<open>
  The claim fails when the browser raises: the record is still Pending with no
  \<open>applied_at\<close>, and the exception reaches the caller of Execute and of RequestApplication.
\<close>

theorem executor_failure_counterexample:
  "Application_query_first (db_with (row ''Pending'' None)) 1 1 = Some (row ''Pending'' None)
   \<and> fst (execute_application Raises noon 1 1 (db_with (row ''Pending'' None)))
       = Inl WebDriverException
   \<and> Application_query_first
        (snd (execute_application Raises noon 1 1 (db_with (row ''Pending'' None)))) 1 1
       = Some (row ''Pending'' None)
   \<and> status (row ''Pending'' None) \<noteq> ''Failed''
   \<and> applied_at (row ''Pending'' None) \<noteq> Some noon
   \<and> fst (apply_job_route Raises noon (request None) db0) = Inl WebDriverException"
  by (simp add: execute_application_def run_selenium_apply_def Application_query_first_def
        db_with_def db0_def row_def for_pair_def apply_job_route_def apply_job_create_def
        apply_job_dispatch_def User_query_get_def Job_query_get_def request_def truthy_def
        db_session_add_def)

text \<open>
  C4. A RequestApplication for a pair that has a record already, whatever its status, fails
  with DuplicateApplication and leaves the whole state as it was: no record is created,
  nothing is scheduled and the executor is not run. The rows of the table refer to existing
  users and jobs (\<open>refs_resolve\<close>, the foreign keys of the table, which every operation
  preserves: \<open>run_refs\<close>).
\<close>

theorem request_existing_is_duplicate:
  assumes "refs_resolve s" and "data_user_id d = Some uid" and "data_job_id d = Some jid"
    and "Application_query_first s uid jid = Some a"
  shows "apply_job_route chrome now d s = (Inr DuplicateApplication, s)"
proof -
  have "a \<in> set (applications s) \<and> for_pair uid jid a"
    using assms(4) unfolding Application_query_first_def by (rule find_Some_mem)
  then have "users s uid \<noteq> None \<and> jobs s jid \<noteq> None"
    using assms(1) by (auto simp: refs_resolve_def list_all_iff for_pair_def)
  then show ?thesis
    using assms duplicate_when_resolved [of d uid jid s chrome now] by simp
qed

theorem request_existing_is_duplicate_witness:
  "refs_resolve (step (RequestApplication Succeeds noon (request (Some ''2026-01-01 12:00:10''))) db0)
   \<and> Application_query_first
        (step (RequestApplication Succeeds noon (request (Some ''2026-01-01 12:00:10''))) db0) 1 1
       = Some (row ''Pending'' None)
   \<and> apply_job_route Succeeds noon (request None)
        (step (RequestApplication Succeeds noon (request (Some ''2026-01-01 12:00:10''))) db0)
       = (Inr (Json_error ''Already applied'' 400),
          step (RequestApplication Succeeds noon (request (Some ''2026-01-01 12:00:10''))) db0)"
proof -
  let ?s = "step (RequestApplication Succeeds noon (request (Some ''2026-01-01 12:00:10''))) db0"
  have r: "refs_resolve ?s"
    by code_simp
  have q: "Application_query_first ?s 1 1 = Some (row ''Pending'' None)"
    by code_simp
  have u: "data_user_id (request None) = Some 1" and j: "data_job_id (request None) = Some 1"
    by (simp_all add: request_def)
  show ?thesis
    using r q request_existing_is_duplicate [OF r u j q, of Succeeds noon]
    by (simp add: DuplicateApplication_def)
qed



text \<open>
  C6, as amended. The claim is that only RequestApplication inserts records and that no
  operation inserts a record with status Applied. What holds: RequestApplication inserts
  one record, with status Pending, exactly when its two checks pass (so the pair had no
  record), and nothing otherwise; Execute for a resolvable pair that has no record inserts
  a record with status Applied and \<open>applied_at\<close> the current time when the executor
  succeeds, and inserts nothing in every other case; no sequence of operations deletes a
  record or changes its id or its pair.
\<close>

theorem record_creation_and_retention:
  "(apply_job_create d s = Inr (u, j, s1) \<longrightarrow>
      Application_query_first s u j = None
      \<and> applications s1 = applications s @
           [\<lparr>app_id = next_id (applications s), user_id = u, job_id = j,
             status = ''Pending'', applied_at = None\<rparr>]
      \<and> length (applications (snd (apply_job_route chrome now d s)))
          = length (applications s) + 1)
   \<and> (\<forall>r. apply_job_create d s = Inl r \<longrightarrow> snd (apply_job_route chrome now d s) = s)
   \<and> (users s uid \<noteq> None \<and> jobs s jid \<noteq> None \<and> Application_query_first s uid jid = None \<longrightarrow>
        applications (snd (execute_application Succeeds now uid jid s)) = applications s @
           [\<lparr>app_id = next_id (applications s), user_id = uid, job_id = jid,
             status = ''Applied'', applied_at = Some now\<rparr>])
   \<and> (Application_query_first s uid jid \<noteq> None \<or> chrome = Raises
        \<or> users s uid = None \<or> jobs s jid = None \<longrightarrow>
        length (applications (snd (execute_application chrome now uid jid s)))
          = length (applications s))
   \<and> (\<exists>zs. map row_key (applications (run ops s)) = map row_key (applications s) @ zs)"
proof -
  have a: "apply_job_create d s = Inr (u, j, s1) \<longrightarrow>
      Application_query_first s u j = None
      \<and> applications s1 = applications s @
           [\<lparr>app_id = next_id (applications s), user_id = u, job_id = j,
             status = ''Pending'', applied_at = None\<rparr>]
      \<and> length (applications (snd (apply_job_route chrome now d s)))
          = length (applications s) + 1"
    using create_cases [of d s u j s1] create_frame [of d s u j s1]
      route_length [of d s u j s1 chrome now] by blast
  have b: "\<forall>r. apply_job_create d s = Inl r \<longrightarrow> snd (apply_job_route chrome now d s) = s"
    by (simp add: apply_job_route_def)
  have c: "users s uid \<noteq> None \<and> jobs s jid \<noteq> None \<and> Application_query_first s uid jid = None \<longrightarrow>
        applications (snd (execute_application Succeeds now uid jid s)) = applications s @
           [\<lparr>app_id = next_id (applications s), user_id = uid, job_id = jid,
             status = ''Applied'', applied_at = Some now\<rparr>]"
    by (auto simp: execute_succeeds_missing)
  have e: "Application_query_first s uid jid \<noteq> None \<or> chrome = Raises
        \<or> users s uid = None \<or> jobs s jid = None \<longrightarrow>
        length (applications (snd (execute_application chrome now uid jid s)))
          = length (applications s)"
    using execute_length_existing [of s uid jid chrome now] by blast
  show ?thesis
    using a b c e run_keys [of ops s] by - (intro conjI; assumption)
qed

theorem record_creation_and_retention_witness:
  "apply_job_create (request None) db0 = Inr (1, 1, db_with (row ''Pending'' None))
   \<and> applications (db_with (row ''Pending'' None)) = applications db0 @ [row ''Pending'' None]
   \<and> length (applications (snd (apply_job_route Succeeds noon (request None) db0))) = 1
   \<and> applications (snd (execute_application Succeeds noon 1 1 db0))
       = [row ''Applied'' (Some noon)]"
proof -
  have cr: "apply_job_create (request None) db0 = Inr (1, 1, db_with (row ''Pending'' None))"
    by (simp add: apply_job_create_def request_def db0_def db_with_def row_def
          User_query_get_def Job_query_get_def Application_query_first_def db_session_add_def
          next_id_def)
  have pre: "users db0 1 \<noteq> None \<and> jobs db0 1 \<noteq> None \<and> Application_query_first db0 1 1 = None"
    by (simp add: db0_def Application_query_first_def)
  have nx: "next_id (applications db0) = 1"
    by (simp add: db0_def next_id_def)
  show ?thesis
    using cr pre nx
      record_creation_and_retention
        [of "request None" db0 1 1 "db_with (row ''Pending'' None)" Succeeds noon 1 1 "[]"]
    by (simp add: row_def db0_def)
qed

text \<open>
  The claim fails for an Execute on a resolvable pair with no record: the \<open>else\<close> branch of
  \<open>execute_application\<close> inserts a record whose first status is Applied.
\<close>

theorem execute_inserts_applied_counterexample:
  "applications db0 = []
   \<and> applications (snd (execute_application Succeeds noon 1 1 db0))
       = [\<lparr>app_id = 1, user_id = 1, job_id = 1, status = ''Applied'', applied_at = Some noon\<rparr>]"
  by (simp add: execute_application_def run_selenium_apply_def Application_query_first_def
        db0_def db_session_add_def next_id_def)

text \<open>
  C7. A RequestApplication whose \<open>userId\<close> or \<open>jobId\<close> does not resolve fails with NotFound
  and leaves the whole state as it was: no record, no scheduled task, no executor run.
\<close>

theorem request_unresolved_not_found:
  "User_query_get s (data_user_id d) = None \<or> Job_query_get s (data_job_id d) = None \<Longrightarrow>
     apply_job_route chrome now d s = (Inr NotFound, s)"
  by (auto simp: apply_job_route_def apply_job_create_def split: option.splits)

theorem request_unresolved_not_found_witness:
  "User_query_get db0 (Some 7) = None
   \<and> apply_job_route Succeeds noon
        \<lparr>data_user_id = Some 7, data_job_id = Some 1, data_schedule_time = None\<rparr> db0
      = (Inr (Json_error ''Invalid IDs'' 400), db0)"
proof -
  have h: "User_query_get db0 (Some 7) = None"
    by (simp add: User_query_get_def db0_def)
  show ?thesis
    using h request_unresolved_not_found
      [of db0 "\<lparr>data_user_id = Some 7, data_job_id = Some 1, data_schedule_time = None\<rparr>"
          Succeeds noon]
    by (simp add: NotFound_def)
qed

text \<open>
  C8, as amended. The claim is that a RequestApplication with a schedule time fails with
  InvalidSchedule exactly when the time cannot be parsed into a valid future instant. The
  code never compares the time with the clock. What holds: for a call that passes the two
  checks and has a non-empty schedule time, the call fails with InvalidSchedule exactly
  when \<open>strptime\<close> rejects the text; otherwise the task is registered at the parsed time,
  past or future, and the acknowledgement carries the schedule time as the caller wrote it.
\<close>

theorem invalid_schedule_iff_unparsable:
  assumes "apply_job_create d s = Inr (u, j, s1)"
    and "data_schedule_time d = Some st" and "st \<noteq> []"
  shows "(fst (apply_job_route chrome now d s) = Inr InvalidSchedule \<longleftrightarrow> strptime st = None)
    \<and> (\<forall>dt. strptime st = Some dt \<longrightarrow>
          apply_job_route chrome now d s =
            (Inr (Json_message (''Scheduled at '' @ st)), schedule_application u j dt s1))"
  using route_scheduled_path [OF assms, of chrome now]
  by (auto simp: InvalidSchedule_def split: option.splits)

theorem invalid_schedule_iff_unparsable_witness:
  "apply_job_create (request (Some ''2026-01-01 18:30:00'')) db0
     = Inr (1, 1, db_with (row ''Pending'' None))
   \<and> strptime ''2026-01-01 18:30:00'' = Some evening
   \<and> apply_job_route Succeeds noon (request (Some ''2026-01-01 18:30:00'')) db0
       = (Inr (Json_message ''Scheduled at 2026-01-01 18:30:00''),
          schedule_application 1 1 evening (db_with (row ''Pending'' None)))
   \<and> fst (apply_job_route Succeeds noon (request (Some ''2026-01-01 18:30:00'')) db0)
       \<noteq> Inr InvalidSchedule"
proof -
  have cr: "apply_job_create (request (Some ''2026-01-01 18:30:00'')) db0
     = Inr (1, 1, db_with (row ''Pending'' None))"
    by (simp add: apply_job_create_def request_def db0_def db_with_def row_def
          User_query_get_def Job_query_get_def Application_query_first_def db_session_add_def
          next_id_def)
  have st: "data_schedule_time (request (Some ''2026-01-01 18:30:00'')) = Some ''2026-01-01 18:30:00''"
    by (simp add: request_def)
  have ne: "''2026-01-01 18:30:00'' \<noteq> []"
    by simp
  have p: "strptime ''2026-01-01 18:30:00'' = Some evening"
    by code_simp
  show ?thesis
    using cr p invalid_schedule_iff_unparsable [OF cr st ne, of Succeeds noon]
    by (simp add: InvalidSchedule_def)
qed

text \<open>
  The claim fails for a time in the past: at noon of 2026-01-01 the schedule time
  \<open>2000-01-01 00:00:00\<close> parses, lies before the clock, and is accepted and registered.
\<close>

theorem past_schedule_counterexample:
  "strptime ''2000-01-01 00:00:00''
     = Some \<lparr>year = 2000, month = 1, day = 1, hour = 0, minute = 0, second = 0,
              microsecond = 0\<rparr>
   \<and> datetime_less
        \<lparr>year = 2000, month = 1, day = 1, hour = 0, minute = 0, second = 0, microsecond = 0\<rparr>
        noon
   \<and> fst (apply_job_route Succeeds noon (request (Some ''2000-01-01 00:00:00'')) db0)
       = Inr (Json_message ''Scheduled at 2000-01-01 00:00:00'')
   \<and> scheduler_jobs (snd (apply_job_route Succeeds noon
        (request (Some ''2000-01-01 00:00:00'')) db0))
       = [\<lparr>sched_id = ''apply_1_1'',
           run_date = \<lparr>year = 2000, month = 1, day = 1, hour = 0, minute = 0, second = 0,
                        microsecond = 0\<rparr>,
           sched_args = (1, 1)\<rparr>]"
  by code_simp

text \<open>
  C9. A RequestApplication with resolvable ids, no record for the pair, and a (non-empty)
  schedule time that \<open>strptime\<close> rejects returns InvalidSchedule, but the Pending record
  was committed before the parse and stays in the store; after any further sequence of
  operations, every RequestApplication for the same pair fails with DuplicateApplication
  and changes nothing.
\<close>

theorem rejected_schedule_blocks_the_pair:
  assumes "data_user_id d = Some uid" and "users s uid = Some usr"
    and "data_job_id d = Some jid" and "jobs s jid = Some jb"
    and "Application_query_first s uid jid = None"
    and "data_schedule_time d = Some st" and "st \<noteq> []" and "strptime st = None"
  shows "fst (apply_job_route chrome now d s) = Inr InvalidSchedule
    \<and> Application_query_first (snd (apply_job_route chrome now d s)) uid jid
        = Some \<lparr>app_id = next_id (applications s), user_id = uid, job_id = jid,
                 status = ''Pending'', applied_at = None\<rparr>
    \<and> (\<forall>ops browser clock req. data_user_id req = Some uid \<and> data_job_id req = Some jid \<longrightarrow>
          apply_job_route browser clock req (run ops (snd (apply_job_route chrome now d s)))
            = (Inr DuplicateApplication, run ops (snd (apply_job_route chrome now d s))))"
proof -
  let ?r = "\<lparr>app_id = next_id (applications s), user_id = uid, job_id = jid,
             status = ''Pending'', applied_at = None\<rparr>"
  let ?s1 = "db_session_add uid jid ''Pending'' None s"
  have cr: "apply_job_create d s = Inr (uid, jid, ?s1)"
    using assms(1-5)
    by (simp add: apply_job_create_def User_query_get_def Job_query_get_def)
  have res: "apply_job_route chrome now d s = (Inr InvalidSchedule, ?s1)"
    using route_scheduled_path [OF cr assms(6,7), of chrome now] assms(8) by simp
  have "find (for_pair uid jid) (applications s) = None"
    using assms(5) by (simp add: Application_query_first_def)
  then have "find (for_pair uid jid) (applications s @ [?r]) = Some ?r"
    by (rule find_snoc_new) (simp add: for_pair_def)
  then have q: "Application_query_first ?s1 uid jid = Some ?r"
    by (simp add: Application_query_first_def db_session_add_def)
  have us: "users ?s1 uid = Some usr" and js: "jobs ?s1 jid = Some jb"
    using assms(2,4) by (simp_all add: db_session_add_def)
  have later: "apply_job_route browser clock req (run ops ?s1)
      = (Inr DuplicateApplication, run ops ?s1)"
    if "data_user_id req = Some uid \<and> data_job_id req = Some jid" for ops browser clock req
  proof -
    have "Application_query_first (run ops ?s1) uid jid \<noteq> None"
      using q by (intro run_keeps_record) simp
    moreover have "users (run ops ?s1) uid \<noteq> None" "jobs (run ops ?s1) jid \<noteq> None"
      using us js run_frame [of ops ?s1] by simp_all
    ultimately show ?thesis
      using that duplicate_when_resolved [of req uid jid "run ops ?s1" browser clock] by simp
  qed
  show ?thesis
    unfolding res fst_conv snd_conv using q later by blast
qed

theorem rejected_schedule_blocks_the_pair_witness:
  "strptime ''tomorrow'' = None
   \<and> apply_job_route Succeeds noon (request (Some ''tomorrow'')) db0
       = (Inr (Json_error ''Invalid datetime'' 400), db_with (row ''Pending'' None))
   \<and> apply_job_route Succeeds evening (request (Some ''2026-01-02 09:00:00''))
        (run [Execute Raises noon 1 1] (db_with (row ''Pending'' None)))
       = (Inr (Json_error ''Already applied'' 400),
          run [Execute Raises noon 1 1] (db_with (row ''Pending'' None)))"
proof -
  let ?d = "request (Some ''tomorrow'')"
  have p: "strptime ''tomorrow'' = None"
    by code_simp
  have u: "data_user_id ?d = Some 1" and j: "data_job_id ?d = Some 1"
    and t: "data_schedule_time ?d = Some ''tomorrow''"
    by (simp_all add: request_def)
  have us: "users db0 1 = Some alice" and js: "jobs db0 1 = Some posting"
    and q: "Application_query_first db0 1 1 = None"
    by (simp_all add: db0_def Application_query_first_def)
  have ne: "''tomorrow'' \<noteq> []"
    by simp
  have res: "apply_job_route Succeeds noon ?d db0
       = (Inr (Json_error ''Invalid datetime'' 400), db_with (row ''Pending'' None))"
    using p
    by (simp add: apply_job_route_def apply_job_create_def apply_job_dispatch_def request_def
          db0_def db_with_def row_def User_query_get_def Job_query_get_def truthy_def
          Application_query_first_def db_session_add_def next_id_def InvalidSchedule_def)
  have req: "data_user_id (request (Some ''2026-01-02 09:00:00'')) = Some 1
      \<and> data_job_id (request (Some ''2026-01-02 09:00:00'')) = Some 1"
    by (simp add: request_def)
  note all = rejected_schedule_blocks_the_pair [OF u us j js q t ne p, of Succeeds noon,
      unfolded res fst_conv snd_conv DuplicateApplication_def, THEN conjunct2, THEN conjunct2,
      rule_format, OF req]
  show ?thesis
    using p res all [where ops = "[Execute Raises noon 1 1]" and browser = Succeeds and clock = evening]
    by (simp only: simp_thms)
qed

text \<open>
  C10. An Execute whose \<open>userId\<close> or \<open>jobId\<close> does not resolve returns normally with the
  whole state as it was: the executor is not invoked (\<open>selenium_runs\<close> is unchanged) and no
  record is created or changed.
\<close>

theorem execute_unresolved_is_noop:
  "users s uid = None \<or> jobs s jid = None \<Longrightarrow>
     execute_application chrome now uid jid s = (Inr (), s)"
  by (auto simp: execute_application_def split: option.splits)

theorem execute_unresolved_is_noop_witness:
  "jobs db0 2 = None \<and> execute_application Succeeds noon 1 2 db0 = (Inr (), db0)"
proof -
  have h: "jobs db0 2 = None" by (simp add: db0_def)
  then have "users db0 1 = None \<or> jobs db0 2 = None" by simp
  from h execute_unresolved_is_noop [OF this] show ?thesis by simp
qed

end
